theory Spec2Isabelle
  imports Complex_Main
begin

section \<open>Heikin-Ashi doji strategy: candles, classifier and position manager\<close>

text \<open>
  A shallow embedding of \<^verbatim>\<open>heikin_ashi.py\<close> and \<^verbatim>\<open>positions.py\<close>.
  Python's \<^verbatim>\<open>int\<close> is \<^typ>\<open>int\<close>. A finite \<^verbatim>\<open>float\<close> is given by its
  rational value (\<^typ>\<open>rat\<close>).

  The pattern classifier and the position sizing are modelled with the arithmetic of the
  code, IEEE 754 binary64 with rounding to nearest, ties to even: what they return
  depends on how a quotient is rounded. The candle transformer, and the price levels and
  the profit and loss of the position manager, are modelled with exact rational
  arithmetic: the properties stated of them are the formulas the code evaluates and
  order properties of guarded updates, which do not depend on the rounding of a result.
\<close>

subsection \<open>Python floats\<close>

text \<open>
  A \<^verbatim>\<open>float\<close> is a finite double, an infinity or NaN. The two zeros are one
  value: the modelled code can tell them apart only by dividing by zero, which raises
  in Python.
\<close>

datatype pyfloat = Finite rat | PInf | NInf | NaN

datatype py_error = ZeroDivisionError | OverflowError | ValueError

definition pow2 :: "int \<Rightarrow> rat" where
  "pow2 k = (if 0 \<le> k then 2 ^ nat k else 1 / 2 ^ nat (- k))"

text \<open>The number of binary digits of a positive integer.\<close>

function bit_length :: "int \<Rightarrow> int" where
  "bit_length n = (if n \<le> 0 then 0 else 1 + bit_length (n div 2))"
  by pat_completeness auto
termination
  by (relation "measure nat") auto

declare bit_length.simps [simp del]

text \<open>For \<open>a > 0\<close>, the exponent \<open>e\<close> with \<open>2 ^ e \<le> a < 2 ^ (e + 1)\<close>.\<close>

definition ilog2 :: "rat \<Rightarrow> int" where
  "ilog2 a = (if 1 \<le> a then bit_length \<lfloor>a\<rfloor> - 1 else - bit_length (\<lceil>1 / a\<rceil> - 1))"

definition round_half_even :: "rat \<Rightarrow> int" where
  "round_half_even x =
     (let f = \<lfloor>x\<rfloor>; d = x - of_int f
      in if d < 1 / 2 then f else if 1 / 2 < d then f + 1 else if even f then f else f + 1)"

text \<open>
  The double nearest to a rational: 53 significant bits, exponents from \<open>-1022\<close> to
  \<open>1023\<close>, gradual underflow on the grid of \<open>2 ^ -1074\<close>, overflow to an infinity.
\<close>

definition round_double :: "rat \<Rightarrow> pyfloat" where
  "round_double r =
     (if r = 0 then Finite 0
      else
        let a = \<bar>r\<bar>;
            e = max (ilog2 a) (- 1022);
            q = pow2 (e - 52);
            m = round_half_even (a / q)
        in if 1023 < e \<or> (e = 1023 \<and> m = 2 ^ 53) then (if 0 < r then PInf else NInf)
           else Finite (sgn r * (of_int m * q)))"

text \<open>A float literal of the source text denotes the double nearest to its decimal.\<close>

definition lit :: "rat \<Rightarrow> pyfloat" where
  "lit r = round_double r"

text \<open>The finite doubles are the rationals that rounding leaves unchanged.\<close>

definition is_double :: "rat \<Rightarrow> bool" where
  "is_double r \<longleftrightarrow> round_double r = Finite r"

text \<open>Python's \<^verbatim>\<open><\<close> and \<^verbatim>\<open><=\<close> on floats: false as soon as one side is NaN.\<close>

fun flt :: "pyfloat \<Rightarrow> pyfloat \<Rightarrow> bool" where
  "flt (Finite a) (Finite b) = (a < b)"
| "flt (Finite a) PInf = True"
| "flt NInf (Finite b) = True"
| "flt NInf PInf = True"
| "flt x y = False"

fun fle :: "pyfloat \<Rightarrow> pyfloat \<Rightarrow> bool" where
  "fle (Finite a) (Finite b) = (a \<le> b)"
| "fle (Finite a) PInf = True"
| "fle NInf (Finite b) = True"
| "fle NInf PInf = True"
| "fle PInf PInf = True"
| "fle NInf NInf = True"
| "fle x y = False"

fun fneg :: "pyfloat \<Rightarrow> pyfloat" where
  "fneg (Finite a) = Finite (- a)"
| "fneg PInf = NInf"
| "fneg NInf = PInf"
| "fneg NaN = NaN"

fun fabs :: "pyfloat \<Rightarrow> pyfloat" where
  "fabs (Finite a) = Finite \<bar>a\<bar>"
| "fabs PInf = PInf"
| "fabs NInf = PInf"
| "fabs NaN = NaN"

fun fadd :: "pyfloat \<Rightarrow> pyfloat \<Rightarrow> pyfloat" where
  "fadd (Finite a) (Finite b) = round_double (a + b)"
| "fadd NaN y = NaN"
| "fadd x NaN = NaN"
| "fadd PInf NInf = NaN"
| "fadd NInf PInf = NaN"
| "fadd PInf y = PInf"
| "fadd x PInf = PInf"
| "fadd NInf y = NInf"
| "fadd x NInf = NInf"

definition fsub :: "pyfloat \<Rightarrow> pyfloat \<Rightarrow> pyfloat" where
  "fsub x y = fadd x (fneg y)"

text \<open>The sign of a float that is not NaN, for the sign of an infinite result.\<close>

fun negative :: "pyfloat \<Rightarrow> bool" where
  "negative (Finite a) = (a < 0)"
| "negative NInf = True"
| "negative x = False"

definition signed_inf :: "pyfloat \<Rightarrow> pyfloat \<Rightarrow> pyfloat" where
  "signed_inf x y = (if negative x = negative y then PInf else NInf)"

fun fmul :: "pyfloat \<Rightarrow> pyfloat \<Rightarrow> pyfloat" where
  "fmul (Finite a) (Finite b) = round_double (a * b)"
| "fmul NaN y = NaN"
| "fmul x NaN = NaN"
| "fmul x y = (if x = Finite 0 \<or> y = Finite 0 then NaN else signed_inf x y)"

text \<open>
  The IEEE quotient by a divisor that is not zero. Python's \<^verbatim>\<open>/\<close> tests the
  divisor first and raises \<^verbatim>\<open>ZeroDivisionError\<close> when it is zero, so the quotient
  by zero is never computed (it is NaN here).
\<close>

fun fquot :: "pyfloat \<Rightarrow> pyfloat \<Rightarrow> pyfloat" where
  "fquot (Finite a) (Finite b) = (if b = 0 then NaN else round_double (a / b))"
| "fquot NaN y = NaN"
| "fquot x NaN = NaN"
| "fquot (Finite a) y = Finite 0"
| "fquot x (Finite b) = (if b = 0 then NaN else signed_inf x (Finite b))"
| "fquot x y = NaN"

definition fdiv :: "pyfloat \<Rightarrow> pyfloat \<Rightarrow> py_error + pyfloat" where
  "fdiv x y = (if y = Finite 0 then Inl ZeroDivisionError else Inr (fquot x y))"

text \<open>
  Python's two-argument \<^verbatim>\<open>max\<close> and \<^verbatim>\<open>min\<close> keep the first argument unless
  the second is greater (smaller).
\<close>

definition pymax :: "pyfloat \<Rightarrow> pyfloat \<Rightarrow> pyfloat" where
  "pymax x y = (if flt x y then y else x)"

definition pymin :: "pyfloat \<Rightarrow> pyfloat \<Rightarrow> pyfloat" where
  "pymin x y = (if flt y x then y else x)"

text \<open>
  \<^verbatim>\<open>int(math.floor(x))\<close>: \<^verbatim>\<open>math.floor\<close> raises \<^verbatim>\<open>OverflowError\<close> on an
  infinity and \<^verbatim>\<open>ValueError\<close> on NaN.
\<close>

fun math_floor :: "pyfloat \<Rightarrow> py_error + int" where
  "math_floor (Finite a) = Inr \<lfloor>a\<rfloor>"
| "math_floor PInf = Inl OverflowError"
| "math_floor NInf = Inl OverflowError"
| "math_floor NaN = Inl ValueError"

subsection \<open>Candle transformer (\<^verbatim>\<open>compute_heikin_ashi\<close>)\<close>

text \<open>A raw candle is a dict with the keys timestamp, open, high, low, close, volume.\<close>

record bar =
  bar_timestamp :: string
  bar_open :: rat
  bar_high :: rat
  bar_low :: rat
  bar_close :: rat
  bar_volume :: rat

text \<open>A Heikin-Ashi candle is a dict with the keys timestamp, ha_open, ha_high, ha_low,
  ha_close, volume.\<close>

record ha_candle =
  ha_timestamp :: string
  ha_open :: rat
  ha_high :: rat
  ha_low :: rat
  ha_close :: rat
  ha_volume :: rat

text \<open>
  The body of the \<^verbatim>\<open>for c in candles\<close> loop. The loop variables
  \<^verbatim>\<open>prev_ha_open\<close> and \<^verbatim>\<open>prev_ha_close\<close> are both \<^verbatim>\<open>None\<close> before the first
  candle and both set after it: they are one optional pair. Python's three-argument
  \<^verbatim>\<open>max(h, ha_open, ha_close)\<close> folds from the left.
\<close>

fun ha_loop :: "(rat \<times> rat) option \<Rightarrow> bar list \<Rightarrow> ha_candle list" where
  "ha_loop prev [] = []"
| "ha_loop prev (c # candles) =
     (let op = bar_open c; h = bar_high c; l = bar_low c; cl = bar_close c;
          hc = (op + h + l + cl) / 4;
          ho = (case prev of
                  None \<Rightarrow> (op + cl) / 2
                | Some (prev_ha_open, prev_ha_close) \<Rightarrow> (prev_ha_open + prev_ha_close) / 2);
          hh = max (max h ho) hc;
          hl = min (min l ho) hc;
          candle_ha = \<lparr>ha_timestamp = bar_timestamp c, ha_open = ho, ha_high = hh,
                       ha_low = hl, ha_close = hc, ha_volume = bar_volume c\<rparr>
      in candle_ha # ha_loop (Some (ho, hc)) candles)"

definition compute_heikin_ashi :: "bar list \<Rightarrow> ha_candle list" where
  "compute_heikin_ashi candles = ha_loop None candles"

subsection \<open>Pattern classifier (\<^verbatim>\<open>classify_heikin_ashi_doji\<close>)\<close>

datatype doji_type = standard | dragonfly | gravestone | long_legged

text \<open>
  The returned dict, with the keys type, body_pct, upper_pct, lower_pct; the three
  percentages are floats.
\<close>

record 'a doji_info =
  doji :: doji_type
  body_pct :: 'a
  upper_pct :: 'a
  lower_pct :: 'a

text \<open>
  The classifier on floats, every operation the IEEE one. The comparison
  \<^verbatim>\<open>a > b\<close> is \<open>flt b a\<close>.
\<close>

definition classify_heikin_ashi_doji ::
  "pyfloat \<Rightarrow> pyfloat \<Rightarrow> pyfloat \<Rightarrow> pyfloat \<Rightarrow> pyfloat \<Rightarrow> pyfloat \<Rightarrow>
     py_error + pyfloat doji_info option" where
  "classify_heikin_ashi_doji ha_o ha_h ha_l ha_c max_body_pct min_shadow_pct =
     (let rang = fsub ha_h ha_l in
      if fle rang (Finite 0) then Inr None
      else
        let body = fabs (fsub ha_c ha_o) in
        case fdiv body rang of
          Inl err \<Rightarrow> Inl err
        | Inr bpct \<Rightarrow>
            if flt max_body_pct bpct then Inr None
            else
              let upper_shadow = fsub ha_h (pymax ha_o ha_c);
                  lower_shadow = fsub (pymin ha_o ha_c) ha_l in
              case fdiv upper_shadow rang of
                Inl err \<Rightarrow> Inl err
              | Inr upct \<Rightarrow>
                  (case fdiv lower_shadow rang of
                     Inl err \<Rightarrow> Inl err
                   | Inr lpct \<Rightarrow>
                       let doji_type =
                             (if flt upct (lit (1 / 10)) \<and> flt (lit (6 / 10)) lpct then dragonfly
                              else if flt lpct (lit (1 / 10)) \<and> flt (lit (6 / 10)) upct
                                   then gravestone
                              else if flt min_shadow_pct upct \<and> flt min_shadow_pct lpct
                                   then long_legged
                              else standard)
                       in Inr (Some \<lparr>doji = doji_type, body_pct = bpct, upper_pct = upct,
                                       lower_pct = lpct\<rparr>)))"

text \<open>The call with the default arguments \<^verbatim>\<open>max_body_pct=0.1, min_shadow_pct=0.3\<close>.\<close>

definition classify_default ::
  "pyfloat \<Rightarrow> pyfloat \<Rightarrow> pyfloat \<Rightarrow> pyfloat \<Rightarrow> py_error + pyfloat doji_info option" where
  "classify_default ha_o ha_h ha_l ha_c =
     classify_heikin_ashi_doji ha_o ha_h ha_l ha_c (lit (1 / 10)) (lit (3 / 10))"

text \<open>
  The same function with every operation exact, on rationals: the arithmetic in which
  the partition of the candle into body and shadows is stated.
\<close>

definition classify_heikin_ashi_doji_exact ::
  "rat \<Rightarrow> rat \<Rightarrow> rat \<Rightarrow> rat \<Rightarrow> rat \<Rightarrow> rat \<Rightarrow> rat doji_info option" where
  "classify_heikin_ashi_doji_exact ha_o ha_h ha_l ha_c max_body_pct min_shadow_pct =
     (let rang = ha_h - ha_l in
      if rang \<le> 0 then None
      else
        let body = \<bar>ha_c - ha_o\<bar>;
            bpct = body / rang in
        if bpct > max_body_pct then None
        else
          let upper_shadow = ha_h - max ha_o ha_c;
              lower_shadow = min ha_o ha_c - ha_l;
              upct = upper_shadow / rang;
              lpct = lower_shadow / rang;
              doji_type =
                (if upct < 1 / 10 \<and> lpct > 6 / 10 then dragonfly
                 else if lpct < 1 / 10 \<and> upct > 6 / 10 then gravestone
                 else if upct > min_shadow_pct \<and> lpct > min_shadow_pct then long_legged
                 else standard)
          in Some \<lparr>doji = doji_type, body_pct = bpct, upper_pct = upct, lower_pct = lpct\<rparr>)"

text \<open>
  The classification contract in the specification's words. First as the
  specification reads, with exact quotients and the thresholds 0.1, 0.6 and 0.3.
\<close>

definition spec_body_pct :: "rat \<Rightarrow> rat \<Rightarrow> rat \<Rightarrow> rat \<Rightarrow> rat" where
  "spec_body_pct op h l c = \<bar>c - op\<bar> / (h - l)"

definition spec_upper_shadow_pct :: "rat \<Rightarrow> rat \<Rightarrow> rat \<Rightarrow> rat \<Rightarrow> rat" where
  "spec_upper_shadow_pct op h l c = (h - max op c) / (h - l)"

definition spec_lower_shadow_pct :: "rat \<Rightarrow> rat \<Rightarrow> rat \<Rightarrow> rat \<Rightarrow> rat" where
  "spec_lower_shadow_pct op h l c = (min op c - l) / (h - l)"

definition spec_doji_type :: "rat \<Rightarrow> rat \<Rightarrow> doji_type" where
  "spec_doji_type upper_shadow_pct lower_shadow_pct =
     (if upper_shadow_pct < 1 / 10 \<and> lower_shadow_pct > 6 / 10 then dragonfly
      else if lower_shadow_pct < 1 / 10 \<and> upper_shadow_pct > 6 / 10 then gravestone
      else if upper_shadow_pct > 3 / 10 \<and> lower_shadow_pct > 3 / 10 then long_legged
      else standard)"

text \<open>
  Then the same contract on doubles: every difference and quotient is the rounded
  one, and the thresholds are the doubles nearest to 0.1, 0.6 and 0.3.
\<close>

definition double_body_pct :: "pyfloat \<Rightarrow> pyfloat \<Rightarrow> pyfloat \<Rightarrow> pyfloat \<Rightarrow> pyfloat" where
  "double_body_pct op h l c = fquot (fabs (fsub c op)) (fsub h l)"

definition double_upper_shadow_pct ::
  "pyfloat \<Rightarrow> pyfloat \<Rightarrow> pyfloat \<Rightarrow> pyfloat \<Rightarrow> pyfloat" where
  "double_upper_shadow_pct op h l c = fquot (fsub h (pymax op c)) (fsub h l)"

definition double_lower_shadow_pct ::
  "pyfloat \<Rightarrow> pyfloat \<Rightarrow> pyfloat \<Rightarrow> pyfloat \<Rightarrow> pyfloat" where
  "double_lower_shadow_pct op h l c = fquot (fsub (pymin op c) l) (fsub h l)"

definition double_doji_type :: "pyfloat \<Rightarrow> pyfloat \<Rightarrow> doji_type" where
  "double_doji_type upper_shadow_pct lower_shadow_pct =
     (if flt upper_shadow_pct (lit (1 / 10)) \<and> flt (lit (6 / 10)) lower_shadow_pct
      then dragonfly
      else if flt lower_shadow_pct (lit (1 / 10)) \<and> flt (lit (6 / 10)) upper_shadow_pct
      then gravestone
      else if flt (lit (3 / 10)) upper_shadow_pct \<and> flt (lit (3 / 10)) lower_shadow_pct
      then long_legged
      else standard)"

subsection \<open>Position manager (\<^verbatim>\<open>positions.py\<close>): data\<close>

text \<open>
  \<^verbatim>\<open>Position.side\<close> is the string LONG or SHORT (\<^verbatim>\<open>open_long\<close> and
  \<^verbatim>\<open>open_short\<close> are the only callers that choose it); the side of an order is BUY
  or SELL; the three exit reasons are the three strings \<^verbatim>\<open>on_price_update\<close> passes.
\<close>

datatype side = LONG | SHORT

datatype order_side = BUY | SELL

datatype exit_reason = profit_target_hit | hard_stop_loss_hit | trailing_stop_hit

text \<open>The fields of \<^verbatim>\<open>Config\<close> that the position manager reads.\<close>

record config =
  fallback_qty :: int
  capital_per_trade :: rat
  max_risk_per_trade_pct :: rat
  profit_target_pct :: rat
  stop_loss_pct :: rat
  trailing_stop_pct :: rat

record position =
  side :: side
  qty :: int
  entry_price :: rat
  stop_loss :: rat
  target :: rat
  trailing_stop :: rat
  extreme_price :: rat
  order_id :: "string option"

text \<open>
  A notification is the message text handed to \<^verbatim>\<open>_notify\<close>. The model keeps which of
  the four f-strings it is, together with the values interpolated into it (the formatting
  to two decimals is not modelled):
  \<^item> \<open>Entry_failed side\<close>: "SIDE entry order failed, not opening position.";
  \<^item> \<open>Opened side qty entry_price stop_loss stop_loss_pct target profit_target_pct
    trailing_stop_pct\<close>: "Opened SIDE position (qty=...) at ..., SL=..., TP=..., trail=...";
  \<^item> \<open>Closed side reason exit_price entry_price pnl_pct\<close>:
    "Closed SIDE (reason: ...) at ..., entry=..., P&L=...%.";
  \<^item> \<open>Exit_failed reason\<close>: "Failed to place exit order (reason: ...)."
\<close>

datatype notification =
    Entry_failed side
  | Opened side int rat rat rat rat rat rat
  | Closed side exit_reason rat rat rat
  | Exit_failed exit_reason

text \<open>
  The order sink \<^verbatim>\<open>client.place_market_order(side, qty)\<close> is external: what it answers
  (an order id or \<^verbatim>\<open>None\<close>) is a parameter of every operation that calls it, and the
  calls made to it are recorded in \<open>orders\<close>. Every notifier is modelled by the list of
  the messages it has received (as \<^verbatim>\<open>ListNotifier\<close> keeps them).
\<close>

type_synonym order_sink = "order_side \<Rightarrow> int \<Rightarrow> string option"

record manager =
  position :: "position option"
  notifiers :: "notification list list"
  orders :: "(order_side \<times> int) list"

subsection \<open>Position manager: operations\<close>

text \<open>Python's truth value of an \<^verbatim>\<open>Optional[str]\<close>: \<^verbatim>\<open>None\<close> and the empty string are false.\<close>

definition truthy :: "string option \<Rightarrow> bool" where
  "truthy oid = (case oid of None \<Rightarrow> False | Some s \<Rightarrow> s \<noteq> [])"

definition has_open_position :: "manager \<Rightarrow> bool" where
  "has_open_position m = (position m \<noteq> None)"

definition notify :: "notification \<Rightarrow> manager \<Rightarrow> manager" where
  "notify msg m = m\<lparr>notifiers := map (\<lambda>target_list. target_list @ [msg]) (notifiers m)\<rparr>"

definition place_market_order ::
  "order_sink \<Rightarrow> order_side \<Rightarrow> int \<Rightarrow> manager \<Rightarrow> string option \<times> manager" where
  "place_market_order sink s q m = (sink s q, m\<lparr>orders := orders m @ [(s, q)]\<rparr>)"

text \<open>
  The position sizing on doubles: the configuration values and the entry price are
  finite floats, every operation is the IEEE one, and \<^verbatim>\<open>math.floor\<close> raises on a
  quotient that is infinite or NaN.
\<close>

definition calc_qty_from_risk :: "config \<Rightarrow> rat \<Rightarrow> py_error + int" where
  "calc_qty_from_risk cfg entry =
     (case fdiv (Finite (max_risk_per_trade_pct cfg)) (Finite 100) of
        Inl err \<Rightarrow> Inl err
      | Inr risk_fraction \<Rightarrow>
          let risk_amount = fmul (Finite (capital_per_trade cfg)) risk_fraction in
          case fdiv (Finite (stop_loss_pct cfg)) (Finite 100) of
            Inl err \<Rightarrow> Inl err
          | Inr stop_fraction \<Rightarrow>
              let per_unit_risk = fmul (Finite entry) stop_fraction in
              if fle per_unit_risk (Finite 0) then Inr (fallback_qty cfg)
              else
                (case fdiv risk_amount per_unit_risk of
                   Inl err \<Rightarrow> Inl err
                 | Inr ratio \<Rightarrow>
                     (case math_floor ratio of
                        Inl err \<Rightarrow> Inl err
                      | Inr q \<Rightarrow> Inr (max q (fallback_qty cfg)))))"

text \<open>
  \<^verbatim>\<open>_open_position\<close> computes the quantity before it changes anything: when that
  raises, the exception leaves \<^verbatim>\<open>_open_position\<close> with the manager as it was. The
  result is the manager after the call together with the exception raised, if any.
\<close>

definition open_position ::
  "config \<Rightarrow> order_sink \<Rightarrow> side \<Rightarrow> rat \<Rightarrow> manager \<Rightarrow> manager \<times> py_error option" where
  "open_position cfg sink sd entry m =
     (if position m \<noteq> None then (m, None)
      else
        case calc_qty_from_risk cfg entry of
          Inl err \<Rightarrow> (m, Some err)
        | Inr q \<Rightarrow>
            let (sl, tg, ts, ex, os) =
                  (case sd of
                     LONG \<Rightarrow>
                       (let sl = entry * (1 - stop_loss_pct cfg / 100);
                            tg = entry * (1 + profit_target_pct cfg / 100)
                        in (sl, tg, sl, entry, BUY))
                   | SHORT \<Rightarrow>
                       (let sl = entry * (1 + stop_loss_pct cfg / 100);
                            tg = entry * (1 - profit_target_pct cfg / 100)
                        in (sl, tg, sl, entry, SELL)));
                (oid, m1) = place_market_order sink os q m
            in if \<not> truthy oid then (notify (Entry_failed sd) m1, None)
               else
                 (notify (Opened sd q entry sl (stop_loss_pct cfg) tg (profit_target_pct cfg)
                            (trailing_stop_pct cfg))
                    (m1\<lparr>position := Some \<lparr>side = sd, qty = q, entry_price = entry,
                                           stop_loss = sl, target = tg, trailing_stop = ts,
                                           extreme_price = ex, order_id = oid\<rparr>\<rparr>),
                  None))"

definition open_long ::
  "config \<Rightarrow> order_sink \<Rightarrow> rat \<Rightarrow> manager \<Rightarrow> manager \<times> py_error option" where
  "open_long cfg sink entry m = open_position cfg sink LONG entry m"

definition open_short ::
  "config \<Rightarrow> order_sink \<Rightarrow> rat \<Rightarrow> manager \<Rightarrow> manager \<times> py_error option" where
  "open_short cfg sink entry m = open_position cfg sink SHORT entry m"

text \<open>
  \<^verbatim>\<open>_close_position\<close> divides by \<^verbatim>\<open>pos.entry_price\<close> before it places the order:
  with an entry price of zero Python raises \<^verbatim>\<open>ZeroDivisionError\<close> there, and nothing
  has been changed yet (\<open>Inl\<close>).
\<close>

definition close_position ::
  "order_sink \<Rightarrow> exit_reason \<Rightarrow> rat \<Rightarrow> manager \<Rightarrow> py_error + manager" where
  "close_position sink reason exit_price m =
     (case position m of
        None \<Rightarrow> Inr m
      | Some pos \<Rightarrow>
          if entry_price pos = 0 then Inl ZeroDivisionError
          else
            let (os, pnl_pct) =
                  (case side pos of
                     LONG \<Rightarrow> (SELL, (exit_price - entry_price pos) / entry_price pos * 100)
                   | SHORT \<Rightarrow> (BUY, (entry_price pos - exit_price) / entry_price pos * 100));
                (oid, m1) = place_market_order sink os (qty pos) m;
                m2 = (if truthy oid
                      then notify (Closed (side pos) reason exit_price (entry_price pos) pnl_pct) m1
                      else notify (Exit_failed reason) m1)
            in Inr (m2\<lparr>position := None\<rparr>))"

text \<open>
  \<^verbatim>\<open>on_price_update\<close> mutates the position object in place and then may call
  \<^verbatim>\<open>_close_position\<close>. When that call raises, the exception leaves
  \<^verbatim>\<open>on_price_update\<close> and the mutation stays: the result is the manager after the call
  together with the exception raised, if any.
\<close>

definition call_close ::
  "order_sink \<Rightarrow> exit_reason \<Rightarrow> rat \<Rightarrow> manager \<Rightarrow> manager \<times> py_error option" where
  "call_close sink reason price m =
     (case close_position sink reason price m of
        Inl e \<Rightarrow> (m, Some e)
      | Inr m' \<Rightarrow> (m', None))"

definition on_price_update ::
  "config \<Rightarrow> order_sink \<Rightarrow> rat \<Rightarrow> manager \<Rightarrow> manager \<times> py_error option" where
  "on_price_update cfg sink price m =
     (case position m of
        None \<Rightarrow> (m, None)
      | Some pos \<Rightarrow>
          (case side pos of
             LONG \<Rightarrow>
               let pos1 =
                     (if price > extreme_price pos then
                        let pos' = pos\<lparr>extreme_price := price\<rparr>;
                            new_trail = extreme_price pos' * (1 - trailing_stop_pct cfg / 100)
                        in if new_trail > trailing_stop pos'
                           then pos'\<lparr>trailing_stop := new_trail\<rparr> else pos'
                      else pos);
                   m1 = m\<lparr>position := Some pos1\<rparr>
               in if price \<ge> target pos1 then call_close sink profit_target_hit price m1
                  else if price \<le> stop_loss pos1 then call_close sink hard_stop_loss_hit price m1
                  else if price \<le> trailing_stop pos1 then call_close sink trailing_stop_hit price m1
                  else (m1, None)
           | SHORT \<Rightarrow>
               let pos1 =
                     (if price < extreme_price pos then
                        let pos' = pos\<lparr>extreme_price := price\<rparr>;
                            new_trail = extreme_price pos' * (1 + trailing_stop_pct cfg / 100)
                        in if new_trail < trailing_stop pos'
                           then pos'\<lparr>trailing_stop := new_trail\<rparr> else pos'
                      else pos);
                   m1 = m\<lparr>position := Some pos1\<rparr>
               in if price \<le> target pos1 then call_close sink profit_target_hit price m1
                  else if price \<ge> stop_loss pos1 then call_close sink hard_stop_loss_hit price m1
                  else if price \<ge> trailing_stop pos1 then call_close sink trailing_stop_hit price m1
                  else (m1, None)))"

text \<open>
  Successive price updates on the position carried from one strategy cycle to the next.
  Every cycle builds its manager with the configuration and the order sink of that cycle,
  so each update has its own; the position object survives an update that raised.
\<close>

fun price_updates :: "(config \<times> order_sink \<times> rat) list \<Rightarrow> manager \<Rightarrow> manager" where
  "price_updates [] m = m"
| "price_updates ((cfg, sink, price) # us) m =
     price_updates us (fst (on_price_update cfg sink price m))"

subsection \<open>The position life cycle in the specification's words\<close>

text \<open>The ratchet of an open position on a price sample.\<close>

definition spec_ratchet :: "config \<Rightarrow> rat \<Rightarrow> position \<Rightarrow> position" where
  "spec_ratchet cfg price pos =
     (case side pos of
        LONG \<Rightarrow>
          if price > extreme_price pos
          then pos\<lparr>extreme_price := price,
                   trailing_stop := max (trailing_stop pos) (price * (1 - trailing_stop_pct cfg / 100))\<rparr>
          else pos
      | SHORT \<Rightarrow>
          if price < extreme_price pos
          then pos\<lparr>extreme_price := price,
                   trailing_stop := min (trailing_stop pos) (price * (1 + trailing_stop_pct cfg / 100))\<rparr>
          else pos)"

text \<open>The exit conditions in their priority order: target, hard stop-loss, trailing stop.\<close>

definition spec_exit_reason :: "position \<Rightarrow> rat \<Rightarrow> exit_reason option" where
  "spec_exit_reason pos price =
     (case side pos of
        LONG \<Rightarrow>
          if price \<ge> target pos then Some profit_target_hit
          else if price \<le> stop_loss pos then Some hard_stop_loss_hit
          else if price \<le> trailing_stop pos then Some trailing_stop_hit
          else None
      | SHORT \<Rightarrow>
          if price \<le> target pos then Some profit_target_hit
          else if price \<ge> stop_loss pos then Some hard_stop_loss_hit
          else if price \<ge> trailing_stop pos then Some trailing_stop_hit
          else None)"

text \<open>The realized profit and loss, in percent of the entry price.\<close>

definition spec_pnl_pct :: "side \<Rightarrow> rat \<Rightarrow> rat \<Rightarrow> rat" where
  "spec_pnl_pct sd entry exit_price =
     (case sd of
        LONG \<Rightarrow> (exit_price - entry) / entry * 100
      | SHORT \<Rightarrow> (entry - exit_price) / entry * 100)"






definition exit_order_side :: "side \<Rightarrow> order_side" where
  "exit_order_side sd = (case sd of LONG \<Rightarrow> SELL | SHORT \<Rightarrow> BUY)"

definition entry_order_side :: "side \<Rightarrow> order_side" where
  "entry_order_side sd = (case sd of LONG \<Rightarrow> BUY | SHORT \<Rightarrow> SELL)"

subsection \<open>Concrete inputs\<close>

text \<open>The two bars of the specification's round-trip scenario.\<close>

definition bars2 :: "bar list" where
  "bars2 =
     [\<lparr>bar_timestamp = ''t0'', bar_open = 100, bar_high = 105, bar_low = 95, bar_close = 102,
        bar_volume = 10\<rparr>,
      \<lparr>bar_timestamp = ''t1'', bar_open = 102, bar_high = 108, bar_low = 100, bar_close = 103,
        bar_volume = 20\<rparr>]"

text \<open>The default values of \<^verbatim>\<open>Config\<close>.\<close>

definition default_config :: config where
  "default_config =
     \<lparr>fallback_qty = 50, capital_per_trade = 100000, max_risk_per_trade_pct = 1,
      profit_target_pct = 10, stop_loss_pct = 1, trailing_stop_pct = 1\<rparr>"


definition accepting_sink :: order_sink where
  "accepting_sink s q = Some ''ORD-1''"

definition rejecting_sink :: order_sink where
  "rejecting_sink s q = None"

text \<open>A manager with no position and one notifier that has received nothing.\<close>

definition flat_manager :: manager where
  "flat_manager = \<lparr>position = None, notifiers = [[]], orders = []\<rparr>"

text \<open>A LONG position with target 110, stop-loss 99 and trailing stop 100.\<close>

definition long_position :: position where
  "long_position =
     \<lparr>side = LONG, qty = 50, entry_price = 100, stop_loss = 99, target = 110,
      trailing_stop = 100, extreme_price = 101, order_id = Some ''ORD-1''\<rparr>"

definition long_manager :: manager where
  "long_manager = \<lparr>position = Some long_position, notifiers = [[]], orders = []\<rparr>"

text \<open>A SHORT position with target 90, stop-loss 101 and trailing stop 101.\<close>

definition short_position :: position where
  "short_position =
     \<lparr>side = SHORT, qty = 50, entry_price = 100, stop_loss = 101, target = 90,
      trailing_stop = 101, extreme_price = 100, order_id = Some ''ORD-1''\<rparr>"

definition short_manager :: manager where
  "short_manager = \<lparr>position = Some short_position, notifiers = [[]], orders = []\<rparr>"

text \<open>The profit and loss percentage a notification reports, if it reports one.\<close>

fun pnl_reported :: "notification \<Rightarrow> rat option" where
  "pnl_reported (Closed sd reason exit_price entry pnl_pct) = Some pnl_pct"
| "pnl_reported (Entry_failed sd) = None"
| "pnl_reported (Opened sd q entry sl slp tg tgp trp) = None"
| "pnl_reported (Exit_failed reason) = None"

section \<open>Doubles\<close>

text \<open>
  The grid of the doubles: every finite double is an integer multiple of \<open>2 ^ -1074\<close>,
  and a rational of at least that size is not rounded to zero. Hence the difference of
  two distinct doubles, as the code computes it, is never zero.
\<close>

lemma bit_length_bounds:
  "0 < n \<Longrightarrow> 0 < bit_length n \<and> 2 ^ nat (bit_length n - 1) \<le> n \<and> n < 2 ^ nat (bit_length n)"
proof (induction n rule: bit_length.induct)
  case (1 n)
  from "1.prems" have unfold: "bit_length n = 1 + bit_length (n div 2)"
    by (subst bit_length.simps) simp
  show ?case
  proof (cases "n div 2 = 0")
    case True
    with "1.prems" have "n = 1" by presburger
    moreover have "bit_length (n div 2) = 0"
      using True by (subst bit_length.simps) simp
    ultimately show ?thesis using unfold by simp
  next
    case False
    with "1.prems" have pos: "0 < n div 2" by presburger
    from "1.prems" have "\<not> n \<le> 0" by simp
    from "1.IH" [OF this pos]
    have b: "0 < bit_length (n div 2)"
      and lo: "2 ^ nat (bit_length (n div 2) - 1) \<le> n div 2"
      and hi: "n div 2 < 2 ^ nat (bit_length (n div 2))"
      by simp_all
    from b have e1: "nat (bit_length n - 1) = Suc (nat (bit_length (n div 2) - 1))"
      and e2: "nat (bit_length n) = Suc (nat (bit_length (n div 2)))"
      using unfold by simp_all
    have "2 * (n div 2) \<le> n" and "n < 2 * (n div 2) + 2" by presburger+
    with lo hi show ?thesis using unfold b e1 e2 by simp
  qed
qed

lemma pow2_power_int: "pow2 k = power_int 2 k"
  by (simp add: pow2_def power_int_def field_simps)

lemma pow2_pos: "0 < pow2 k"
  by (simp add: pow2_def)

lemma pow2_add: "pow2 (j + k) = pow2 j * pow2 k"
  by (simp add: pow2_power_int power_int_add)

lemma pow2_mono: "j \<le> k \<Longrightarrow> pow2 j \<le> pow2 k"
  by (simp add: pow2_power_int power_int_increasing)

lemma pow2_nat: "0 \<le> k \<Longrightarrow> pow2 k = of_int (2 ^ nat k)"
  by (simp add: pow2_def)

lemma ilog2_lower:
  assumes "0 < a"
  shows "pow2 (ilog2 a) \<le> a"
proof (cases "1 \<le> a")
  case True
  then have fl: "0 < \<lfloor>a\<rfloor>" by simp
  from bit_length_bounds [OF fl]
  have b: "0 < bit_length \<lfloor>a\<rfloor>" and lo: "2 ^ nat (bit_length \<lfloor>a\<rfloor> - 1) \<le> \<lfloor>a\<rfloor>"
    by simp_all
  from b have "pow2 (ilog2 a) = of_int (2 ^ nat (bit_length \<lfloor>a\<rfloor> - 1))"
    using True by (simp add: ilog2_def pow2_def)
  also have "\<dots> \<le> of_int \<lfloor>a\<rfloor>" using lo by (simp only: of_int_le_iff)
  also have "\<dots> \<le> a" by simp
  finally show ?thesis .
next
  case False
  with assms have inv: "1 < 1 / a" by simp
  define n where "n = \<lceil>1 / a\<rceil> - 1"
  from inv have "1 < \<lceil>1 / a\<rceil>" by (simp add: less_ceiling_iff)
  then have npos: "0 < n" by (simp add: n_def)
  from bit_length_bounds [OF npos]
  have b: "0 < bit_length n" and hi: "n < 2 ^ nat (bit_length n)" by simp_all
  from hi have "\<lceil>1 / a\<rceil> \<le> 2 ^ nat (bit_length n)" by (simp add: n_def)
  then have "1 / a \<le> of_int (2 ^ nat (bit_length n))"
    by (simp only: ceiling_le_iff)
  then have "1 / a \<le> 2 ^ nat (bit_length n)" by simp
  with assms have "1 / 2 ^ nat (bit_length n) \<le> a"
    by (simp add: field_simps)
  moreover have "pow2 (ilog2 a) = 1 / 2 ^ nat (bit_length n)"
    using False b by (simp add: ilog2_def pow2_def n_def)
  ultimately show ?thesis by simp
qed

lemma round_half_even_pos: "1 \<le> x \<Longrightarrow> 1 \<le> round_half_even x"
proof -
  assume "1 \<le> x"
  then have "1 \<le> \<lfloor>x\<rfloor>" by simp
  then show ?thesis by (simp add: round_half_even_def Let_def)
qed

lemma round_double_pos:
  assumes "pow2 (- 1074) \<le> r"
  shows "flt (Finite 0) (round_double r)"
proof -
  from assms pow2_pos [of "- 1074"] have rpos: "0 < r" by simp
  define e where "e = max (ilog2 r) (- 1022)"
  define m where "m = round_half_even (r / pow2 (e - 52))"
  have "pow2 (e - 52) \<le> r"
  proof (cases "ilog2 r \<le> - 1022")
    case True
    then have "e = - 1022" by (simp add: e_def)
    with assms show ?thesis by simp
  next
    case False
    then have "e = ilog2 r" by (simp add: e_def)
    then have "pow2 (e - 52) \<le> pow2 (ilog2 r)" by (simp add: pow2_mono)
    with ilog2_lower [OF rpos] show ?thesis by simp
  qed
  with pow2_pos [of "e - 52"] have "1 \<le> r / pow2 (e - 52)" by (simp add: field_simps)
  from round_half_even_pos [OF this] have "1 \<le> m" by (simp add: m_def)
  then have "0 < rat_of_int m * pow2 (e - 52)"
    using pow2_pos [of "e - 52"] by simp
  with rpos show ?thesis
    unfolding round_double_def Let_def e_def [symmetric] m_def [symmetric]
    by (simp del: flt.simps add: e_def [symmetric] m_def [symmetric]) (simp add: rpos)
qed

lemma is_double_grid:
  assumes "is_double r"
  shows "\<exists>k :: int. r = of_int k * pow2 (- 1074)"
proof (cases "r = 0")
  case True
  then show ?thesis by (intro exI [of _ 0]) simp
next
  case False
  define e where "e = max (ilog2 \<bar>r\<bar>) (- 1022)"
  define m where "m = round_half_even (\<bar>r\<bar> / pow2 (e - 52))"
  from assms False have "r = sgn r * (of_int m * pow2 (e - 52))"
    unfolding is_double_def round_double_def Let_def e_def [symmetric] m_def [symmetric]
    by (auto split: if_splits)
  moreover have "0 \<le> e + 1022" by (simp add: e_def)
  then have "pow2 (e - 52) = of_int (2 ^ nat (e + 1022)) * pow2 (- 1074)"
    using pow2_add [of "e + 1022" "- 1074"] by (simp add: pow2_nat)
  moreover obtain s :: int where "sgn r = of_int s"
  proof (cases "0 < r")
    case True
    then have "sgn r = of_int 1" by simp
    then show ?thesis by (rule that)
  next
    case False
    with \<open>r \<noteq> 0\<close> have "sgn r = of_int (- 1)" by simp
    then show ?thesis by (rule that)
  qed
  ultimately have "r = of_int (s * m * 2 ^ nat (e + 1022)) * pow2 (- 1074)"
    by (simp add: mult.assoc)
  then show ?thesis by blast
qed

lemma double_difference_positive:
  assumes "is_double h" and "is_double l" and "l < h"
  shows "flt (Finite 0) (fsub (Finite h) (Finite l))"
proof -
  from is_double_grid [OF assms(1)] obtain kh :: int where h: "h = of_int kh * pow2 (- 1074)" ..
  from is_double_grid [OF assms(2)] obtain kl :: int where l: "l = of_int kl * pow2 (- 1074)" ..
  from assms(3) h l pow2_pos [of "- 1074"] have "kl < kh"
    by (simp add: mult_less_cancel_right)
  then have "1 \<le> kh - kl" by simp
  then have "(1 :: rat) \<le> of_int (kh - kl)" by (simp only: of_int_1_le_iff)
  then have "1 * pow2 (- 1074) \<le> of_int (kh - kl) * pow2 (- 1074)"
    using pow2_pos [of "- 1074"] by (simp only: mult_le_cancel_right) simp
  then have "pow2 (- 1074) \<le> h - l" by (simp add: h l algebra_simps)
  from round_double_pos [OF this] show ?thesis by (simp add: fsub_def)
qed

lemma flt_zero_not_fle: "flt (Finite 0) x \<Longrightarrow> \<not> fle x (Finite 0) \<and> x \<noteq> Finite 0"
  by (cases x) auto

section \<open>The candle transformer\<close>

lemma ha_loop_length: "length (ha_loop prev bars) = length bars"
  by (induction bars arbitrary: prev) (simp_all add: Let_def)

lemma ha_loop_shape:
  "i < length bars \<Longrightarrow>
     ha_high (ha_loop prev bars ! i) =
       max (max (bar_high (bars ! i)) (ha_open (ha_loop prev bars ! i)))
           (ha_close (ha_loop prev bars ! i)) \<and>
     ha_low (ha_loop prev bars ! i) =
       min (min (bar_low (bars ! i)) (ha_open (ha_loop prev bars ! i)))
           (ha_close (ha_loop prev bars ! i)) \<and>
     ha_close (ha_loop prev bars ! i) =
       (bar_open (bars ! i) + bar_high (bars ! i) + bar_low (bars ! i) + bar_close (bars ! i)) / 4"
proof (induction bars arbitrary: prev i)
  case Nil
  then show ?case by simp
next
  case (Cons b bars)
  show ?case
  proof (cases i)
    case 0
    then show ?thesis by (simp add: Let_def)
  next
    case (Suc j)
    with Cons.prems have "j < length bars" by simp
    from Cons.IH [OF this] Suc show ?thesis by (simp add: Let_def)
  qed
qed

lemma ha_loop_first:
  "bars \<noteq> [] \<Longrightarrow>
     ha_open (ha_loop prev bars ! 0) =
       (case prev of
          None \<Rightarrow> (bar_open (bars ! 0) + bar_close (bars ! 0)) / 2
        | Some (po, pc) \<Rightarrow> (po + pc) / 2)"
  by (cases bars) (auto simp: Let_def split: option.splits)

lemma ha_loop_step:
  "Suc i < length bars \<Longrightarrow>
     ha_open (ha_loop prev bars ! Suc i) =
       (ha_open (ha_loop prev bars ! i) + ha_close (ha_loop prev bars ! i)) / 2"
proof (induction bars arbitrary: prev i)
  case Nil
  then show ?case by simp
next
  case (Cons b bars)
  show ?case
  proof (cases i)
    case 0
    with Cons.prems have ne: "bars \<noteq> []" by auto
    show ?thesis using 0 ha_loop_first [OF ne] by (simp add: Let_def)
  next
    case (Suc j)
    with Cons.prems have "Suc j < length bars" by simp
    from Cons.IH [OF this] Suc show ?thesis by (simp add: Let_def)
  qed
qed

text \<open>
  Claim C8. For every sequence of bars, the output of \<open>compute_heikin_ashi\<close> has the
  length of its input, and every output candle has
  \<open>ha_high = max(bar.high, ha_open, ha_close)\<close> and
  \<open>ha_low = min(bar.low, ha_open, ha_close)\<close>, with
  \<open>ha_open = (bar.open + bar.close) / 2\<close> at index 0 and
  \<open>ha_open[i] = (ha_open[i-1] + ha_close[i-1]) / 2\<close> at every index \<open>i > 0\<close>.
\<close>

theorem compute_heikin_ashi_invariants:
  "length (compute_heikin_ashi bars) = length bars \<and>
   (\<forall>i. i < length bars \<longrightarrow>
      ha_high (compute_heikin_ashi bars ! i) =
        max (max (bar_high (bars ! i)) (ha_open (compute_heikin_ashi bars ! i)))
            (ha_close (compute_heikin_ashi bars ! i)) \<and>
      ha_low (compute_heikin_ashi bars ! i) =
        min (min (bar_low (bars ! i)) (ha_open (compute_heikin_ashi bars ! i)))
            (ha_close (compute_heikin_ashi bars ! i)) \<and>
      (i = 0 \<longrightarrow> ha_open (compute_heikin_ashi bars ! i) =
                  (bar_open (bars ! i) + bar_close (bars ! i)) / 2) \<and>
      (0 < i \<longrightarrow> ha_open (compute_heikin_ashi bars ! i) =
                  (ha_open (compute_heikin_ashi bars ! (i - 1)) +
                   ha_close (compute_heikin_ashi bars ! (i - 1))) / 2))"
proof (intro conjI allI impI)
  show "length (compute_heikin_ashi bars) = length bars"
    by (simp add: compute_heikin_ashi_def ha_loop_length)
next
  fix i assume "i < length bars"
  then show "ha_high (compute_heikin_ashi bars ! i) =
        max (max (bar_high (bars ! i)) (ha_open (compute_heikin_ashi bars ! i)))
            (ha_close (compute_heikin_ashi bars ! i))"
    unfolding compute_heikin_ashi_def using ha_loop_shape by blast
next
  fix i assume "i < length bars"
  then show "ha_low (compute_heikin_ashi bars ! i) =
        min (min (bar_low (bars ! i)) (ha_open (compute_heikin_ashi bars ! i)))
            (ha_close (compute_heikin_ashi bars ! i))"
    unfolding compute_heikin_ashi_def using ha_loop_shape by blast
next
  fix i assume "i < length bars" "i = 0"
  then have "bars \<noteq> []" by auto
  from ha_loop_first [OF this, of None] \<open>i = 0\<close>
  show "ha_open (compute_heikin_ashi bars ! i) = (bar_open (bars ! i) + bar_close (bars ! i)) / 2"
    by (simp add: compute_heikin_ashi_def)
next
  fix i assume "i < length bars" "0 < i"
  then obtain j where j: "i = Suc j" by (cases i) auto
  with \<open>i < length bars\<close> have "Suc j < length bars" by simp
  from ha_loop_step [OF this, of None] j
  show "ha_open (compute_heikin_ashi bars ! i) =
          (ha_open (compute_heikin_ashi bars ! (i - 1)) +
           ha_close (compute_heikin_ashi bars ! (i - 1))) / 2"
    by (simp add: compute_heikin_ashi_def)
qed

text \<open>
  The round-trip scenario: the first smoothed candle opens at 101 and closes at 100.5,
  the second opens at 100.75.
\<close>

theorem compute_heikin_ashi_invariants_witness:
  "length (compute_heikin_ashi bars2) = 2 \<and>
   ha_open (compute_heikin_ashi bars2 ! 0) = 101 \<and>
   ha_close (compute_heikin_ashi bars2 ! 0) = 201 / 2 \<and>
   ha_open (compute_heikin_ashi bars2 ! 1) = 403 / 4 \<and>
   ha_high (compute_heikin_ashi bars2 ! 1) = 108 \<and>
   ha_low (compute_heikin_ashi bars2 ! 1) = 100"
proof -
  have len: "length bars2 = 2" by (simp add: bars2_def)
  note inv = compute_heikin_ashi_invariants [of bars2]
  have c0: "ha_close (compute_heikin_ashi bars2 ! 0) = 201 / 2"
    and c1: "ha_close (compute_heikin_ashi bars2 ! 1) = 413 / 4"
    by (simp_all add: compute_heikin_ashi_def bars2_def Let_def)
  from inv len have l: "length (compute_heikin_ashi bars2) = 2" by simp
  from inv [THEN conjunct2, THEN spec, of 0] len
  have o0: "ha_open (compute_heikin_ashi bars2 ! 0) = 101"
    by (simp add: bars2_def)
  from inv [THEN conjunct2, THEN spec, of 1] len o0 c0 c1
  have o1: "ha_open (compute_heikin_ashi bars2 ! 1) = 403 / 4"
    and h1: "ha_high (compute_heikin_ashi bars2 ! 1) = 108"
    and l1: "ha_low (compute_heikin_ashi bars2 ! 1) = 100"
    by (simp_all add: bars2_def)
  from l o0 c0 o1 h1 l1 show ?thesis by simp
qed

section \<open>The pattern classifier\<close>

text \<open>
  Claim C5, as the code has it. For every four-tuple of floats \<open>(o, h, l, c)\<close> in
  which \<open>h\<close> and \<open>l\<close> are finite doubles with \<open>h > l\<close>, the classifier with the
  default thresholds never raises, and it returns none if and only if the quotient
  \<open>|c - o| / (h - l)\<close> computed in double arithmetic (the difference and the
  quotient each rounded to the nearest double) is greater than the double nearest to
  0.1. Otherwise it returns one classification, whose three percentages are the body and
  shadow percentages computed in double arithmetic, and whose type follows the priority
  order dragonfly, gravestone, long_legged, standard on them, with the doubles nearest
  to 0.1, 0.6 and 0.3 as thresholds.
\<close>

theorem classify_default_contract:
  assumes "is_double h" and "is_double l" and "l < h"
  shows "(classify_default ha_o (Finite h) (Finite l) ha_c = Inr None \<longleftrightarrow>
            flt (lit (1 / 10)) (double_body_pct ha_o (Finite h) (Finite l) ha_c)) \<and>
         (\<not> flt (lit (1 / 10)) (double_body_pct ha_o (Finite h) (Finite l) ha_c) \<longrightarrow>
            classify_default ha_o (Finite h) (Finite l) ha_c =
              Inr (Some \<lparr>doji = double_doji_type
                                   (double_upper_shadow_pct ha_o (Finite h) (Finite l) ha_c)
                                   (double_lower_shadow_pct ha_o (Finite h) (Finite l) ha_c),
                         body_pct = double_body_pct ha_o (Finite h) (Finite l) ha_c,
                         upper_pct = double_upper_shadow_pct ha_o (Finite h) (Finite l) ha_c,
                         lower_pct = double_lower_shadow_pct ha_o (Finite h) (Finite l) ha_c\<rparr>))"
proof -
  from flt_zero_not_fle [OF double_difference_positive [OF assms]]
  have "\<not> fle (fsub (Finite h) (Finite l)) (Finite 0)"
    and "fsub (Finite h) (Finite l) \<noteq> Finite 0"
    by simp_all
  then show ?thesis
    by (simp add: classify_default_def classify_heikin_ashi_doji_def Let_def fdiv_def
        double_body_pct_def double_upper_shadow_pct_def double_lower_shadow_pct_def
        double_doji_type_def)
qed

theorem classify_default_contract_witness:
  "is_double 110 \<and> is_double 90 \<and> (90 :: rat) < 110 \<and>
   classify_default (Finite 100) (Finite 110) (Finite 90) (Finite 101) =
     Inr (Some \<lparr>doji = long_legged,
                body_pct = Finite (3602879701896397 / 72057594037927936),
                upper_pct = Finite (8106479329266893 / 18014398509481984),
                lower_pct = Finite (1 / 2)\<rparr>) \<and>
   classify_default (Finite 100) (Finite 110) (Finite 90) (Finite 105) = Inr None"
proof -
  have h: "is_double 110" and l: "is_double 90" by code_simp+
  have lt: "(90 :: rat) < 110" by simp
  have b1: "double_body_pct (Finite 100) (Finite 110) (Finite 90) (Finite 101) =
      Finite (3602879701896397 / 72057594037927936)"
    and u1: "double_upper_shadow_pct (Finite 100) (Finite 110) (Finite 90) (Finite 101) =
      Finite (8106479329266893 / 18014398509481984)"
    and l1: "double_lower_shadow_pct (Finite 100) (Finite 110) (Finite 90) (Finite 101) =
      Finite (1 / 2)"
    and b2: "double_body_pct (Finite 100) (Finite 110) (Finite 90) (Finite 105) = Finite (1 / 4)"
    by code_simp+
  have n1: "\<not> flt (lit (1 / 10)) (Finite (3602879701896397 / 72057594037927936))"
    and n2: "flt (lit (1 / 10)) (Finite (1 / 4))"
    and t1: "double_doji_type (Finite (8106479329266893 / 18014398509481984)) (Finite (1 / 2)) =
      long_legged"
    by code_simp+
  from classify_default_contract [OF h l lt, of "Finite 100" "Finite 101"] b1 u1 l1 n1 t1
  have c1: "classify_default (Finite 100) (Finite 110) (Finite 90) (Finite 101) =
     Inr (Some \<lparr>doji = long_legged,
                body_pct = Finite (3602879701896397 / 72057594037927936),
                upper_pct = Finite (8106479329266893 / 18014398509481984),
                lower_pct = Finite (1 / 2)\<rparr>)"
    by simp
  from classify_default_contract [OF h l lt, of "Finite 100" "Finite 105"] b2 n2
  have c2: "classify_default (Finite 100) (Finite 110) (Finite 90) (Finite 105) = Inr None"
    by simp
  from h l lt c1 c2 show ?thesis by simp
qed

text \<open>
  Claim C5 as stated fails on doubles. The four prices 4000000000000000,
  8999999999999999, 0 and 4900000000000000 are doubles and meet the hypotheses of the
  claim; the exact body ratio is above 0.1, but the double quotient is the double
  nearest to 0.1, which is not greater than the threshold, and the code returns a
  long_legged classification instead of none.
\<close>

theorem classify_body_ratio_is_rounded:
  "is_double 4000000000000000 \<and> is_double 8999999999999999 \<and> is_double 0 \<and>
   is_double 4900000000000000 \<and>
   max (4000000000000000 :: rat) 4900000000000000 \<le> 8999999999999999 \<and>
   (0 :: rat) \<le> min 4000000000000000 4900000000000000 \<and>
   (0 :: rat) < 8999999999999999 \<and>
   1 / 10 < spec_body_pct 4000000000000000 8999999999999999 0 4900000000000000 \<and>
   classify_default (Finite 4000000000000000) (Finite 8999999999999999) (Finite 0)
       (Finite 4900000000000000) =
     Inr (Some \<lparr>doji = long_legged,
                body_pct = Finite (3602879701896397 / 36028797018963968),
                upper_pct = Finite (2051639830246559 / 4503599627370496),
                lower_pct = Finite (8006399337547549 / 18014398509481984)\<rparr>)"
proof -
  have d: "is_double 4000000000000000" "is_double 8999999999999999" "is_double 0"
    "is_double 4900000000000000"
    by code_simp+
  have e: "1 / 10 < spec_body_pct 4000000000000000 8999999999999999 0 4900000000000000"
    by (simp add: spec_body_pct_def)
  have c: "classify_default (Finite 4000000000000000) (Finite 8999999999999999) (Finite 0)
       (Finite 4900000000000000) =
     Inr (Some \<lparr>doji = long_legged,
                body_pct = Finite (3602879701896397 / 36028797018963968),
                upper_pct = Finite (2051639830246559 / 4503599627370496),
                lower_pct = Finite (8006399337547549 / 18014398509481984)\<rparr>)"
    by code_simp
  from d e c show ?thesis by simp
qed

text \<open>
  Claim C9. In exact rational arithmetic, whenever the classifier returns a
  classification, its three percentages partition the candle:
  \<open>body_pct + upper_pct + lower_pct = 1\<close>.
\<close>

theorem doji_pcts_partition:
  assumes "classify_heikin_ashi_doji_exact ha_o ha_h ha_l ha_c max_body_pct min_shadow_pct = Some d"
  shows "body_pct d + upper_pct d + lower_pct d = 1"
proof -
  from assms have r: "ha_h - ha_l > 0"
    by (auto simp: classify_heikin_ashi_doji_exact_def Let_def split: if_splits)
  from assms r have "body_pct d = \<bar>ha_c - ha_o\<bar> / (ha_h - ha_l)"
    "upper_pct d = (ha_h - max ha_o ha_c) / (ha_h - ha_l)"
    "lower_pct d = (min ha_o ha_c - ha_l) / (ha_h - ha_l)"
    by (auto simp: classify_heikin_ashi_doji_exact_def Let_def split: if_splits)
  then have "body_pct d + upper_pct d + lower_pct d =
      (\<bar>ha_c - ha_o\<bar> + (ha_h - max ha_o ha_c) + (min ha_o ha_c - ha_l)) / (ha_h - ha_l)"
    by (simp add: add_divide_distrib)
  also have "\<bar>ha_c - ha_o\<bar> + (ha_h - max ha_o ha_c) + (min ha_o ha_c - ha_l) = ha_h - ha_l"
    by (simp add: max_def min_def abs_if)
  finally show ?thesis using r by simp
qed

theorem doji_pcts_partition_witness:
  "classify_heikin_ashi_doji_exact 100 110 90 101 (1 / 10) (3 / 10) =
     Some \<lparr>doji = long_legged, body_pct = 1 / 20, upper_pct = 9 / 20, lower_pct = 1 / 2\<rparr> \<and>
   (1 / 20 + 9 / 20 + 1 / 2 :: rat) = 1"
proof -
  have c: "classify_heikin_ashi_doji_exact 100 110 90 101 (1 / 10) (3 / 10) =
     Some \<lparr>doji = long_legged, body_pct = 1 / 20, upper_pct = 9 / 20, lower_pct = 1 / 2\<rparr>"
    by (simp add: classify_heikin_ashi_doji_exact_def Let_def)
  from doji_pcts_partition [OF c] c show ?thesis by simp
qed

section \<open>The position manager\<close>

subsection \<open>The ratchet and the exit decision of one price update\<close>

lemma spec_ratchet_fields:
  "side (spec_ratchet cfg price pos) = side pos"
  "qty (spec_ratchet cfg price pos) = qty pos"
  "entry_price (spec_ratchet cfg price pos) = entry_price pos"
  "stop_loss (spec_ratchet cfg price pos) = stop_loss pos"
  "target (spec_ratchet cfg price pos) = target pos"
  by (simp_all add: spec_ratchet_def split: side.splits)

lemma spec_ratchet_trailing_long:
  "side pos = LONG \<Longrightarrow> trailing_stop pos \<le> trailing_stop (spec_ratchet cfg price pos)"
  by (simp add: spec_ratchet_def)

lemma spec_ratchet_trailing_short:
  "side pos = SHORT \<Longrightarrow> trailing_stop (spec_ratchet cfg price pos) \<le> trailing_stop pos"
  by (simp add: spec_ratchet_def)

lemma on_price_update_flat:
  "position m = None \<Longrightarrow> on_price_update cfg sink price m = (m, None)"
  by (simp add: on_price_update_def)

text \<open>
  The code's two chains of tests, one per side, are the ratchet followed by the first
  exit condition that matches, handed to \<^verbatim>\<open>_close_position\<close>.
\<close>

lemma on_price_update_unfold:
  assumes "position m = Some pos"
  shows "on_price_update cfg sink price m =
     (case spec_exit_reason (spec_ratchet cfg price pos) price of
        None \<Rightarrow> (m\<lparr>position := Some (spec_ratchet cfg price pos)\<rparr>, None)
      | Some reason \<Rightarrow>
          call_close sink reason price (m\<lparr>position := Some (spec_ratchet cfg price pos)\<rparr>))"
proof (cases "side pos")
  case LONG
  with assms show ?thesis
    by (simp add: on_price_update_def spec_exit_reason_def spec_ratchet_def Let_def max_def)
next
  case SHORT
  with assms show ?thesis
    by (simp add: on_price_update_def spec_exit_reason_def spec_ratchet_def Let_def min_def)
qed

lemma call_close_raises:
  "position m = Some pos \<Longrightarrow> entry_price pos = 0 \<Longrightarrow>
     call_close sink reason price m = (m, Some ZeroDivisionError)"
  by (simp add: call_close_def close_position_def)

lemma call_close_closes:
  assumes "position m = Some pos" and "entry_price pos \<noteq> 0"
  shows "call_close sink reason price m =
     (m\<lparr>position := None,
        notifiers := map (\<lambda>target_list. target_list @
            [if truthy (sink (exit_order_side (side pos)) (qty pos))
             then Closed (side pos) reason price (entry_price pos)
                    (spec_pnl_pct (side pos) (entry_price pos) price)
             else Exit_failed reason]) (notifiers m),
        orders := orders m @ [(exit_order_side (side pos), qty pos)]\<rparr>, None)"
  using assms
  by (cases "side pos")
     (simp_all add: call_close_def close_position_def place_market_order_def notify_def
        exit_order_side_def spec_pnl_pct_def Let_def)

lemma call_close_position:
  "position m = Some pos \<Longrightarrow>
     position (fst (call_close sink reason price m)) = None \<or>
     fst (call_close sink reason price m) = m"
  using call_close_raises [of m pos sink reason price] call_close_closes [of m pos sink reason price]
  by (cases "entry_price pos = 0") simp_all

lemma on_price_update_step:
  assumes "position m = Some pos"
  shows "position (fst (on_price_update cfg sink price m)) = None \<or>
         position (fst (on_price_update cfg sink price m)) = Some (spec_ratchet cfg price pos)"
proof (cases "spec_exit_reason (spec_ratchet cfg price pos) price")
  case None
  with on_price_update_unfold [OF assms, of cfg sink price] show ?thesis by simp
next
  case (Some reason)
  let ?m1 = "m\<lparr>position := Some (spec_ratchet cfg price pos)\<rparr>"
  have "position ?m1 = Some (spec_ratchet cfg price pos)" by simp
  from call_close_position [OF this, of sink reason price]
    on_price_update_unfold [OF assms, of cfg sink price] Some
  show ?thesis by auto
qed

subsection \<open>Runs of price updates\<close>

lemma price_updates_flat:
  "position m = None \<Longrightarrow> position (price_updates us m) = None"
  by (induction us arbitrary: m) (auto simp: on_price_update_flat)

lemma price_updates_append:
  "price_updates (us1 @ us2) m = price_updates us2 (price_updates us1 m)"
  by (induction us1 arbitrary: m) auto

text \<open>
  A position that is still open after a run of updates has kept its side and its hard
  stop, and its trailing stop has only moved in its favour.
\<close>

lemma price_updates_favours:
  "position m = Some pos \<Longrightarrow> position (price_updates us m) = Some pos' \<Longrightarrow>
     side pos' = side pos \<and> stop_loss pos' = stop_loss pos \<and>
     (side pos = LONG \<longrightarrow> trailing_stop pos \<le> trailing_stop pos') \<and>
     (side pos = SHORT \<longrightarrow> trailing_stop pos' \<le> trailing_stop pos)"
proof (induction us arbitrary: m pos)
  case Nil
  then show ?case by simp
next
  case (Cons u us)
  obtain cfg sink price where u: "u = (cfg, sink, price)" by (cases u)
  let ?m1 = "fst (on_price_update cfg sink price m)"
  from Cons.prems(2) u have fin: "position (price_updates us ?m1) = Some pos'" by simp
  from on_price_update_step [OF Cons.prems(1), of cfg sink price]
  show ?case
  proof
    assume "position ?m1 = None"
    from price_updates_flat [OF this, of us] fin show ?thesis by simp
  next
    assume mid: "position ?m1 = Some (spec_ratchet cfg price pos)"
    from Cons.IH [OF mid fin] show ?thesis
      using spec_ratchet_trailing_long [of pos cfg price]
        spec_ratchet_trailing_short [of pos cfg price]
      by (auto simp: spec_ratchet_fields)
  qed
qed

subsection \<open>Opening from the flat state\<close>

lemma open_position_raises:
  "position m = None \<Longrightarrow> calc_qty_from_risk cfg entry = Inl err \<Longrightarrow>
     open_position cfg sink sd entry m = (m, Some err)"
  by (simp add: open_position_def)

lemma open_position_flat:
  assumes "position m = None" and "calc_qty_from_risk cfg entry = Inr q"
  shows "open_position cfg sink sd entry m =
     (if truthy (sink (entry_order_side sd) q)
      then m\<lparr>position := Some
                \<lparr>side = sd, qty = q, entry_price = entry,
                 stop_loss = (case sd of LONG \<Rightarrow> entry * (1 - stop_loss_pct cfg / 100)
                                       | SHORT \<Rightarrow> entry * (1 + stop_loss_pct cfg / 100)),
                 target = (case sd of LONG \<Rightarrow> entry * (1 + profit_target_pct cfg / 100)
                                    | SHORT \<Rightarrow> entry * (1 - profit_target_pct cfg / 100)),
                 trailing_stop = (case sd of LONG \<Rightarrow> entry * (1 - stop_loss_pct cfg / 100)
                                           | SHORT \<Rightarrow> entry * (1 + stop_loss_pct cfg / 100)),
                 extreme_price = entry,
                 order_id = sink (entry_order_side sd) q\<rparr>,
              notifiers := map (\<lambda>target_list. target_list @
                 [Opened sd q entry
                    (case sd of LONG \<Rightarrow> entry * (1 - stop_loss_pct cfg / 100)
                              | SHORT \<Rightarrow> entry * (1 + stop_loss_pct cfg / 100))
                    (stop_loss_pct cfg)
                    (case sd of LONG \<Rightarrow> entry * (1 + profit_target_pct cfg / 100)
                              | SHORT \<Rightarrow> entry * (1 - profit_target_pct cfg / 100))
                    (profit_target_pct cfg) (trailing_stop_pct cfg)]) (notifiers m),
              orders := orders m @ [(entry_order_side sd, q)]\<rparr>
      else m\<lparr>notifiers := map (\<lambda>target_list. target_list @ [Entry_failed sd]) (notifiers m),
              orders := orders m @ [(entry_order_side sd, q)]\<rparr>,
      None)"
  using assms
  by (cases sd)
     (simp_all add: open_position_def place_market_order_def notify_def entry_order_side_def Let_def)

subsection \<open>Position sizing on concrete inputs\<close>

lemma default_config_fields:
  "fallback_qty default_config = 50"
  "capital_per_trade default_config = 100000"
  "max_risk_per_trade_pct default_config = 1"
  "profit_target_pct default_config = 10"
  "stop_loss_pct default_config = 1"
  "trailing_stop_pct default_config = 1"
  by (simp_all add: default_config_def)





lemma calc_qty_default_200: "calc_qty_from_risk default_config 200 = Inr 500"
  by code_simp

lemma calc_qty_default_100: "calc_qty_from_risk default_config 100 = Inr 1000"
  by code_simp

subsection \<open>Concrete runs\<close>

lemma long_run_1:
  "position (price_updates [(default_config, accepting_sink, 105)] long_manager) =
     Some (long_position\<lparr>trailing_stop := 2079 / 20, extreme_price := 105\<rparr>)"
  by (simp add: on_price_update_def long_manager_def long_position_def default_config_def Let_def)

lemma long_run_3:
  "position (price_updates ([(default_config, accepting_sink, 105)] @
      [(default_config, rejecting_sink, 104), (default_config, accepting_sink, 106)]) long_manager) =
     Some (long_position\<lparr>trailing_stop := 5247 / 50, extreme_price := 106\<rparr>)"
  by (simp add: on_price_update_def long_manager_def long_position_def default_config_def Let_def)

lemma short_run_1:
  "position (price_updates [(default_config, accepting_sink, 95)] short_manager) =
     Some (short_position\<lparr>trailing_stop := 1919 / 20, extreme_price := 95\<rparr>)"
  by (simp add: on_price_update_def short_manager_def short_position_def default_config_def Let_def)

lemma short_run_3:
  "position (price_updates ([(default_config, accepting_sink, 95)] @
      [(default_config, rejecting_sink, 191 / 2), (default_config, accepting_sink, 94)]) short_manager) =
     Some (short_position\<lparr>trailing_stop := 4747 / 50, extreme_price := 94\<rparr>)"
  by (simp add: on_price_update_def short_manager_def short_position_def default_config_def Let_def)

lemma opened_long:
  "fst (open_position default_config accepting_sink LONG 200 flat_manager) =
     \<lparr>position = Some \<lparr>side = LONG, qty = 500, entry_price = 200, stop_loss = 198, target = 220,
                        trailing_stop = 198, extreme_price = 200, order_id = Some ''ORD-1''\<rparr>,
      notifiers = [[Opened LONG 500 200 198 1 220 10 1]], orders = [(BUY, 500)]\<rparr>"
proof -
  have "position flat_manager = None" by (simp add: flat_manager_def)
  from open_position_flat [OF this calc_qty_default_200, of accepting_sink LONG]
  show ?thesis
    by (simp add: default_config_fields flat_manager_def accepting_sink_def truthy_def
        entry_order_side_def)
qed

lemma opened_short:
  "fst (open_position default_config accepting_sink SHORT 200 flat_manager) =
     \<lparr>position = Some \<lparr>side = SHORT, qty = 500, entry_price = 200, stop_loss = 202, target = 180,
                        trailing_stop = 202, extreme_price = 200, order_id = Some ''ORD-1''\<rparr>,
      notifiers = [[Opened SHORT 500 200 202 1 180 10 1]], orders = [(SELL, 500)]\<rparr>"
proof -
  have "position flat_manager = None" by (simp add: flat_manager_def)
  from open_position_flat [OF this calc_qty_default_200, of accepting_sink SHORT]
  show ?thesis
    by (simp add: default_config_fields flat_manager_def accepting_sink_def truthy_def
        entry_order_side_def)
qed

lemma opened_long_run:
  "position (price_updates [(default_config, accepting_sink, 205), (default_config, accepting_sink, 204)]
      (fst (open_position default_config accepting_sink LONG 200 flat_manager))) =
   Some \<lparr>side = LONG, qty = 500, entry_price = 200, stop_loss = 198, target = 220,
         trailing_stop = 4059 / 20, extreme_price = 205, order_id = Some ''ORD-1''\<rparr>"
  by (simp add: opened_long on_price_update_def default_config_fields Let_def)

lemma opened_short_run:
  "position (price_updates [(default_config, accepting_sink, 195), (default_config, accepting_sink, 196)]
      (fst (open_position default_config accepting_sink SHORT 200 flat_manager))) =
   Some \<lparr>side = SHORT, qty = 500, entry_price = 200, stop_loss = 202, target = 180,
         trailing_stop = 3939 / 20, extreme_price = 195, order_id = Some ''ORD-1''\<rparr>"
  by (simp add: opened_short on_price_update_def default_config_fields Let_def)

subsection \<open>Exit notification\<close>

text \<open>
  Claim C1, as the code has it. For every open position with a non-zero entry price and
  every price update that triggers an exit condition, the position is cleared and every
  notifier receives exactly one message. When the exit order is accepted, the message
  reports the realized profit and loss in percent, \<open>(exit - entry) / entry * 100\<close> for
  a LONG position and \<open>(entry - exit) / entry * 100\<close> for a SHORT one. When the exit
  order is rejected, the message reports the failure with the exit reason, and no
  profit and loss.
\<close>

theorem exit_notification:
  assumes "position m = Some pos" and "entry_price pos \<noteq> 0"
    and "spec_exit_reason (spec_ratchet cfg price pos) price = Some reason"
  shows "position (fst (on_price_update cfg sink price m)) = None \<and>
         snd (on_price_update cfg sink price m) = None \<and>
         notifiers (fst (on_price_update cfg sink price m)) =
           map (\<lambda>target_list. target_list @
                 [if truthy (sink (exit_order_side (side pos)) (qty pos))
                  then Closed (side pos) reason price (entry_price pos)
                         (spec_pnl_pct (side pos) (entry_price pos) price)
                  else Exit_failed reason]) (notifiers m)"
proof -
  let ?m1 = "m\<lparr>position := Some (spec_ratchet cfg price pos)\<rparr>"
  have upd: "on_price_update cfg sink price m = call_close sink reason price ?m1"
    using on_price_update_unfold [OF assms(1), of cfg sink price] assms(3) by simp
  have "position ?m1 = Some (spec_ratchet cfg price pos)" by simp
  moreover have "entry_price (spec_ratchet cfg price pos) \<noteq> 0"
    using assms(2) by (simp add: spec_ratchet_fields)
  ultimately show ?thesis
    using call_close_closes [of ?m1 "spec_ratchet cfg price pos" sink reason price] upd
    by (simp add: spec_ratchet_fields)
qed

theorem exit_notification_witness:
  "position long_manager = Some long_position \<and> entry_price long_position \<noteq> 0 \<and>
   spec_exit_reason (spec_ratchet default_config 111 long_position) 111 = Some profit_target_hit \<and>
   position (fst (on_price_update default_config accepting_sink 111 long_manager)) = None \<and>
   notifiers (fst (on_price_update default_config accepting_sink 111 long_manager)) =
     [[Closed LONG profit_target_hit 111 100 11]] \<and>
   notifiers (fst (on_price_update default_config rejecting_sink 111 long_manager)) =
     [[Exit_failed profit_target_hit]]"
proof -
  have a: "position long_manager = Some long_position"
    by (simp add: long_manager_def)
  have b: "entry_price long_position \<noteq> 0"
    by (simp add: long_position_def)
  have c: "spec_exit_reason (spec_ratchet default_config 111 long_position) 111 =
      Some profit_target_hit"
    by (simp add: spec_exit_reason_def spec_ratchet_def long_position_def)
  from exit_notification [OF a b c, of accepting_sink]
    exit_notification [OF a b c, of rejecting_sink] a b c
  show ?thesis
    by (simp add: long_manager_def long_position_def accepting_sink_def rejecting_sink_def
        truthy_def spec_pnl_pct_def exit_order_side_def)
qed

text \<open>
  Claim C1 as stated fails when the exit order is rejected: a LONG position is opened
  at 100 with the default configuration (target 110), the price update 111 hits the
  target, the sink rejects the exit order, and neither of the two notifications sent
  (the opening and the exit failure) reports a profit and loss.
\<close>

theorem exit_failure_reports_no_pnl:
  "position (fst (open_long default_config accepting_sink 100 flat_manager)) =
     Some \<lparr>side = LONG, qty = 1000, entry_price = 100, stop_loss = 99, target = 110,
           trailing_stop = 99, extreme_price = 100, order_id = Some ''ORD-1''\<rparr> \<and>
   position (fst (on_price_update default_config rejecting_sink 111
                    (fst (open_long default_config accepting_sink 100 flat_manager)))) = None \<and>
   notifiers (fst (on_price_update default_config rejecting_sink 111
                     (fst (open_long default_config accepting_sink 100 flat_manager)))) =
     [[Opened LONG 1000 100 99 1 110 10 1, Exit_failed profit_target_hit]] \<and>
   map (map pnl_reported)
     (notifiers (fst (on_price_update default_config rejecting_sink 111
                        (fst (open_long default_config accepting_sink 100 flat_manager))))) =
     [[None, None]]"
proof -
  have "position flat_manager = None" by (simp add: flat_manager_def)
  from open_position_flat [OF this calc_qty_default_100, of accepting_sink LONG]
  have opened: "fst (open_long default_config accepting_sink 100 flat_manager) =
     \<lparr>position = Some \<lparr>side = LONG, qty = 1000, entry_price = 100, stop_loss = 99, target = 110,
                        trailing_stop = 99, extreme_price = 100, order_id = Some ''ORD-1''\<rparr>,
      notifiers = [[Opened LONG 1000 100 99 1 110 10 1]], orders = [(BUY, 1000)]\<rparr>"
    by (simp add: open_long_def default_config_fields flat_manager_def accepting_sink_def
        truthy_def entry_order_side_def)
  show ?thesis
    by (simp add: opened on_price_update_def call_close_def close_position_def
        place_market_order_def notify_def rejecting_sink_def truthy_def
        default_config_fields Let_def)
qed

subsection \<open>At most one position\<close>

text \<open>
  Claim C2. In every manager state with an open position, \<open>open_long\<close> and
  \<open>open_short\<close> (for any entry price, configuration and order sink) return the state
  unchanged: the position is the same, no notification is sent and no order is placed.
\<close>

theorem open_while_open_is_noop:
  assumes "position m = Some pos"
  shows "open_position cfg sink sd entry m = (m, None) \<and>
         open_long cfg sink entry m = (m, None) \<and> open_short cfg sink entry m = (m, None)"
  using assms by (simp add: open_long_def open_short_def open_position_def)

theorem open_while_open_is_noop_witness:
  "position long_manager = Some long_position \<and>
   open_long default_config accepting_sink 200 long_manager = (long_manager, None) \<and>
   open_short default_config accepting_sink 200 long_manager = (long_manager, None) \<and>
   orders (fst (open_short default_config accepting_sink 200 long_manager)) = []"
proof -
  have a: "position long_manager = Some long_position"
    by (simp add: long_manager_def)
  from open_while_open_is_noop [OF a, of default_config accepting_sink LONG 200] a
  show ?thesis by (simp add: long_manager_def)
qed

subsection \<open>The trailing stop\<close>

text \<open>
  Claim C3. For an open LONG position and any sequence of price updates, whatever the
  prices, the trailing stop at any point of the sequence where the position is open is
  at most the trailing stop at any later point where it is still open; for a SHORT
  position it is at least that.
\<close>

theorem trailing_stop_monotonic:
  assumes "position m = Some pos"
    and "position (price_updates us1 m) = Some pos1"
    and "position (price_updates (us1 @ us2) m) = Some pos2"
  shows "(side pos = LONG \<longrightarrow> trailing_stop pos1 \<le> trailing_stop pos2) \<and>
         (side pos = SHORT \<longrightarrow> trailing_stop pos2 \<le> trailing_stop pos1)"
proof -
  from assms(3) have "position (price_updates us2 (price_updates us1 m)) = Some pos2"
    by (simp add: price_updates_append)
  from price_updates_favours [OF assms(1,2)] price_updates_favours [OF assms(2) this]
  show ?thesis by simp
qed

theorem trailing_stop_monotonic_witness:
  "side long_position = LONG \<and>
   trailing_stop (long_position\<lparr>trailing_stop := 2079 / 20, extreme_price := 105\<rparr>) \<le>
     trailing_stop (long_position\<lparr>trailing_stop := 5247 / 50, extreme_price := 106\<rparr>) \<and>
   side short_position = SHORT \<and>
   trailing_stop (short_position\<lparr>trailing_stop := 4747 / 50, extreme_price := 94\<rparr>) \<le>
     trailing_stop (short_position\<lparr>trailing_stop := 1919 / 20, extreme_price := 95\<rparr>)"
proof -
  have a: "position long_manager = Some long_position" by (simp add: long_manager_def)
  have b: "position short_manager = Some short_position" by (simp add: short_manager_def)
  have l: "side long_position = LONG" by (simp add: long_position_def)
  have s: "side short_position = SHORT" by (simp add: short_position_def)
  from trailing_stop_monotonic [OF a long_run_1 long_run_3]
    trailing_stop_monotonic [OF b short_run_1 short_run_3] l s
  show ?thesis by blast
qed

text \<open>
  Claim C10. For a position opened from the flat state, at every state reached by any
  sequence of price updates in which the position is still open, the trailing stop is
  at or above the hard stop for a LONG position, and at or below it for a SHORT one.
\<close>

theorem trailing_stop_beyond_hard_stop:
  assumes "position m = None"
    and "position (price_updates us (fst (open_position cfg sink sd entry m))) = Some pos"
  shows "side pos = sd \<and>
         (sd = LONG \<longrightarrow> stop_loss pos \<le> trailing_stop pos) \<and>
         (sd = SHORT \<longrightarrow> trailing_stop pos \<le> stop_loss pos)"
proof (cases "calc_qty_from_risk cfg entry")
  case (Inl err)
  from open_position_raises [OF assms(1) Inl, of sink sd]
  have "position (fst (open_position cfg sink sd entry m)) = None" using assms(1) by simp
  from price_updates_flat [OF this, of us] assms(2) show ?thesis by simp
next
  case (Inr q)
  note opened = open_position_flat [OF assms(1) Inr, of sink sd]
  show ?thesis
  proof (cases "truthy (sink (entry_order_side sd) q)")
    case False
    with opened have "position (fst (open_position cfg sink sd entry m)) = None"
      using assms(1) by simp
    from price_updates_flat [OF this, of us] assms(2) show ?thesis by simp
  next
    case True
    with opened
    obtain pos0 where p0: "position (fst (open_position cfg sink sd entry m)) = Some pos0"
      and s0: "side pos0 = sd" and t0: "trailing_stop pos0 = stop_loss pos0"
      by (cases sd) simp_all
    from price_updates_favours [OF p0 assms(2)] s0 t0 show ?thesis by auto
  qed
qed

theorem trailing_stop_beyond_hard_stop_witness:
  "position flat_manager = None \<and>
   position (price_updates [(default_config, accepting_sink, 205), (default_config, accepting_sink, 204)]
      (fst (open_position default_config accepting_sink LONG 200 flat_manager))) =
     Some \<lparr>side = LONG, qty = 500, entry_price = 200, stop_loss = 198, target = 220,
           trailing_stop = 4059 / 20, extreme_price = 205, order_id = Some ''ORD-1''\<rparr> \<and>
   stop_loss \<lparr>side = LONG, qty = 500, entry_price = 200, stop_loss = 198, target = 220,
           trailing_stop = 4059 / 20, extreme_price = 205, order_id = Some ''ORD-1''\<rparr> \<le>
   trailing_stop \<lparr>side = LONG, qty = 500, entry_price = 200, stop_loss = 198, target = 220,
           trailing_stop = 4059 / 20, extreme_price = 205, order_id = Some ''ORD-1''\<rparr> \<and>
   position (price_updates [(default_config, accepting_sink, 195), (default_config, accepting_sink, 196)]
      (fst (open_position default_config accepting_sink SHORT 200 flat_manager))) =
     Some \<lparr>side = SHORT, qty = 500, entry_price = 200, stop_loss = 202, target = 180,
           trailing_stop = 3939 / 20, extreme_price = 195, order_id = Some ''ORD-1''\<rparr> \<and>
   trailing_stop \<lparr>side = SHORT, qty = 500, entry_price = 200, stop_loss = 202, target = 180,
           trailing_stop = 3939 / 20, extreme_price = 195, order_id = Some ''ORD-1''\<rparr> \<le>
   stop_loss \<lparr>side = SHORT, qty = 500, entry_price = 200, stop_loss = 202, target = 180,
           trailing_stop = 3939 / 20, extreme_price = 195, order_id = Some ''ORD-1''\<rparr>"
proof -
  have f: "position flat_manager = None" by (simp add: flat_manager_def)
  from trailing_stop_beyond_hard_stop [OF f opened_long_run]
    trailing_stop_beyond_hard_stop [OF f opened_short_run] f opened_long_run opened_short_run
  show ?thesis by simp
qed

subsection \<open>Exit priority\<close>

text \<open>
  Claim C4. On every price update of an open position the exit conditions are checked
  in the order target, hard stop-loss, trailing stop, on the levels as the ratchet of
  this update leaves them: the first condition that matches is the reason of the one
  exit attempted, and when none matches the position stays open. In particular a LONG
  position with target 110, stop-loss 99 and trailing stop 100 exits at the price 111
  with the reason \<open>profit_target_hit\<close>.
\<close>

theorem exit_priority:
  assumes "position m = Some pos"
  shows "on_price_update cfg sink price m =
           (case spec_exit_reason (spec_ratchet cfg price pos) price of
              None \<Rightarrow> (m\<lparr>position := Some (spec_ratchet cfg price pos)\<rparr>, None)
            | Some reason \<Rightarrow>
                call_close sink reason price (m\<lparr>position := Some (spec_ratchet cfg price pos)\<rparr>)) \<and>
         (side pos = LONG \<longrightarrow> target pos = 110 \<longrightarrow> stop_loss pos = 99 \<longrightarrow>
          trailing_stop pos = 100 \<longrightarrow>
            on_price_update cfg sink 111 m =
              call_close sink profit_target_hit 111
                (m\<lparr>position := Some (spec_ratchet cfg 111 pos)\<rparr>))"
proof
  show "on_price_update cfg sink price m =
           (case spec_exit_reason (spec_ratchet cfg price pos) price of
              None \<Rightarrow> (m\<lparr>position := Some (spec_ratchet cfg price pos)\<rparr>, None)
            | Some reason \<Rightarrow>
                call_close sink reason price (m\<lparr>position := Some (spec_ratchet cfg price pos)\<rparr>))"
    by (rule on_price_update_unfold [OF assms])
next
  show "side pos = LONG \<longrightarrow> target pos = 110 \<longrightarrow> stop_loss pos = 99 \<longrightarrow>
          trailing_stop pos = 100 \<longrightarrow>
            on_price_update cfg sink 111 m =
              call_close sink profit_target_hit 111
                (m\<lparr>position := Some (spec_ratchet cfg 111 pos)\<rparr>)"
  proof (intro impI)
    assume "side pos = LONG" "target pos = 110" "stop_loss pos = 99" "trailing_stop pos = 100"
    then have "spec_exit_reason (spec_ratchet cfg 111 pos) 111 = Some profit_target_hit"
      by (simp add: spec_exit_reason_def spec_ratchet_fields)
    with on_price_update_unfold [OF assms, of cfg sink 111]
    show "on_price_update cfg sink 111 m =
              call_close sink profit_target_hit 111
                (m\<lparr>position := Some (spec_ratchet cfg 111 pos)\<rparr>)"
      by simp
  qed
qed

theorem exit_priority_witness:
  "position long_manager = Some long_position \<and>
   side long_position = LONG \<and> target long_position = 110 \<and> stop_loss long_position = 99 \<and>
   trailing_stop long_position = 100 \<and>
   on_price_update default_config accepting_sink 111 long_manager =
     (\<lparr>position = None, notifiers = [[Closed LONG profit_target_hit 111 100 11]],
       orders = [(SELL, 50)]\<rparr>, None)"
proof -
  have a: "position long_manager = Some long_position" by (simp add: long_manager_def)
  have b: "side long_position = LONG" "target long_position = 110" "stop_loss long_position = 99"
    "trailing_stop long_position = 100"
    by (simp_all add: long_position_def)
  have "on_price_update default_config accepting_sink 111 long_manager =
     call_close accepting_sink profit_target_hit 111
       (long_manager\<lparr>position := Some (spec_ratchet default_config 111 long_position)\<rparr>)"
    using exit_priority [OF a, of default_config accepting_sink 111, THEN conjunct2] b by blast
  also have "\<dots> = (\<lparr>position = None, notifiers = [[Closed LONG profit_target_hit 111 100 11]],
       orders = [(SELL, 50)]\<rparr>, None)"
    by (simp add: call_close_def close_position_def place_market_order_def notify_def
        spec_ratchet_def long_manager_def long_position_def accepting_sink_def truthy_def
        default_config_def Let_def)
  finally show ?thesis using a b by simp
qed

subsection \<open>Position sizing and entry\<close>




text \<open>
  Claim C7. For every attempt to open a position from the flat state in which the order
  sink reports no order id for the entry order (of the quantity the position sizing has
  returned), the manager stays flat, every notifier receives the entry failure message,
  and the one order submitted is the rejected entry order.
\<close>

theorem failed_entry_stays_flat:
  assumes "position m = None"
    and "calc_qty_from_risk cfg entry = Inr q"
    and "\<not> truthy (sink (entry_order_side sd) q)"
  shows "position (fst (open_position cfg sink sd entry m)) = None \<and>
         snd (open_position cfg sink sd entry m) = None \<and>
         notifiers (fst (open_position cfg sink sd entry m)) =
           map (\<lambda>target_list. target_list @ [Entry_failed sd]) (notifiers m) \<and>
         orders (fst (open_position cfg sink sd entry m)) =
           orders m @ [(entry_order_side sd, q)]"
  using open_position_flat [OF assms(1,2), of sink sd] assms by simp

theorem failed_entry_stays_flat_witness:
  "position flat_manager = None \<and>
   calc_qty_from_risk default_config 200 = Inr 500 \<and>
   position (fst (open_position default_config rejecting_sink SHORT 200 flat_manager)) = None \<and>
   notifiers (fst (open_position default_config rejecting_sink SHORT 200 flat_manager)) =
     [[Entry_failed SHORT]] \<and>
   orders (fst (open_position default_config rejecting_sink SHORT 200 flat_manager)) =
     [(SELL, 500)]"
proof -
  have f: "position flat_manager = None" by (simp add: flat_manager_def)
  have r: "\<not> truthy (rejecting_sink (entry_order_side SHORT) 500)"
    by (simp add: rejecting_sink_def truthy_def)
  from failed_entry_stays_flat
         [where sink = rejecting_sink and sd = SHORT, OF f calc_qty_default_200 r]
       f calc_qty_default_200
  show ?thesis
    by (simp add: flat_manager_def entry_order_side_def)
qed

end
